theory Spec2Isabelle
  imports Complex_Main
begin

section \<open>The search refinement middleware\<close>

text \<open>
  The middleware is the Python class \<open>SearchRefinementMiddleware\<close> of
  \<^verbatim>\<open>AGENT_REDESIGN_PLAN.md\<close> (section "Custom Middleware for Search Refinement").
  Python floats are modelled as reals (similarity scores are ordinary numbers, never NaN),
  Python ints as \<open>int\<close>, and a dictionary key that may be missing as an \<open>option\<close>.
\<close>

subsection \<open>Data\<close>

text \<open>
  One element of the \<open>archives\<close> list of the search tool (a dict). Only the key
  \<open>similarity\<close> is read by the middleware, with \<open>archive.get("similarity", 0)\<close>:
  \<open>None\<close> stands for a dict without that key.
\<close>

record archive =
  archive_id :: string
  similarity :: "real option"

text \<open>
  \<open>SearchRefinementState\<close>: the four keys the class adds to the agent state. The
  middleware reads them with \<open>state.get\<close>, so each may be absent (\<open>None\<close>). For
  \<open>original_user_query\<close> an absent key and the value \<open>None\<close> are not told apart
  (\<open>state.get("original_user_query")\<close> gives \<open>None\<close> for both). A query is a
  \<open>string option\<close>, since \<open>args.get("query")\<close> is \<open>None\<close> when the call has no query.
\<close>

record SearchRefinementState =
  search_attempt_count :: "int option"
  original_user_query :: "string option"
  previous_queries_tried :: "string option list option"
  best_results :: "archive list option"

text \<open>\<open>request.tool_call\<close>: the keys \<open>name\<close>, \<open>args["query"]\<close> and \<open>id\<close>.\<close>

record ToolCall =
  call_name :: "string option"
  call_query :: "string option"
  call_id :: string

record ToolRequest =
  tool_call :: ToolCall
  state :: SearchRefinementState

text \<open>
  What the tool handler returns: the tool's pair \<open>(formatted_string, archives_list)\<close>, or
  anything that is not a tuple (the branch "Fallback if tool format changes").
\<close>

datatype tool_result = Tuple string "archive list" | NonTuple string

text \<open>
  An f-string is kept as its pieces: the literal text and the values formatted into it.
\<close>

datatype piece =
  Lit string
  | Count nat
  | Queries "string option list"
  | Query "string option"

text \<open>
  What \<open>wrap_tool_call\<close> returns: the handler's result as it is, or the
  \<open>ToolMessage(content, tool_call_id)\<close> that asks the agent for a refined query.
\<close>

datatype tool_reply = Returned tool_result | ToolMessage "piece list" string

text \<open>An exception raised by the handler (the search tool timing out, the store being away).\<close>

datatype exn = TimeoutError string | ConnectionError string | Exception string

text \<open>
  The handler runs the tool: it has effects (it queries the vector store), so it takes the
  outside world \<open>'w\<close> and returns it changed. It either raises or returns a result.
\<close>

type_synonym 'w handler = "ToolRequest \<Rightarrow> 'w \<Rightarrow> (exn + tool_result) \<times> 'w"

record SearchRefinementMiddleware =
  max_attempts :: int
  min_similarity_threshold :: real

subsection \<open>Operations\<close>

text \<open>
  \<open>__init__(self, max_attempts: int = 3, min_similarity_threshold: float = 0.4)\<close>:
  an argument left out is \<open>None\<close> here.
\<close>

definition init :: "int option \<Rightarrow> real option \<Rightarrow> SearchRefinementMiddleware" where
  "init max_attempts_arg min_similarity_threshold_arg =
     \<lparr>max_attempts = (case max_attempts_arg of None \<Rightarrow> 3 | Some m \<Rightarrow> m),
      min_similarity_threshold =
        (case min_similarity_threshold_arg of None \<Rightarrow> 0.4 | Some t \<Rightarrow> t)\<rparr>"

text \<open>\<open>archive.get("similarity", 0)\<close>\<close>

definition get_similarity :: "archive \<Rightarrow> real" where
  "get_similarity a = (case similarity a of None \<Rightarrow> 0 | Some s \<Rightarrow> s)"

text \<open>\<open>_evaluate_results\<close>: \<open>False\<close> on no archives, else \<open>any(... >= threshold)\<close>.\<close>

definition evaluate_results :: "SearchRefinementMiddleware \<Rightarrow> archive list \<Rightarrow> bool" where
  "evaluate_results self archives =
     (if archives = [] then False
      else list_ex (\<lambda>a. get_similarity a \<ge> min_similarity_threshold self) archives)"

text \<open>The reads of the state at the top of \<open>wrap_tool_call\<close>, with their defaults.\<close>

definition get_attempt_count :: "SearchRefinementState \<Rightarrow> int" where
  "get_attempt_count st = (case search_attempt_count st of None \<Rightarrow> 0 | Some n \<Rightarrow> n)"

definition get_previous_queries :: "SearchRefinementState \<Rightarrow> string option list" where
  "get_previous_queries st = (case previous_queries_tried st of None \<Rightarrow> [] | Some qs \<Rightarrow> qs)"

text \<open>The archives parsed from a result: the second component of a tuple, else \<open>[]\<close>.\<close>

definition archives_of :: "tool_result \<Rightarrow> archive list" where
  "archives_of result = (case result of Tuple formatted_string archives \<Rightarrow> archives | NonTuple _ \<Rightarrow> [])"

text \<open>The content of the refinement request, piece by piece.\<close>

definition refinement_content :: "nat \<Rightarrow> string option list \<Rightarrow> string option \<Rightarrow> piece list" where
  "refinement_content n previous_queries original_query =
     [Lit ''Search found '', Count n,
      Lit '' results but they may not be relevant (low similarity scores or empty). '',
      Lit ''Previous queries tried: '', Queries previous_queries, Lit ''. '',
      Lit ''Please analyze the original intent '', Lit [CHR 0x27], Query original_query, Lit [CHR 0x27],
      Lit '' and generate a DIFFERENT refined query. '',
      Lit ''Consider: broadening terms, using synonyms, or adding cultural context.'']"

text \<open>
  \<open>wrap_tool_call(self, request, handler)\<close>. The state is the dict \<open>request.state\<close>,
  which the method updates in place: the model returns the state as it is when the method
  ends, also when the handler's exception leaves the method early (the assignment of
  \<open>original_user_query\<close> on the first attempt comes before the handler runs, and the handler
  sees the request with that assignment made). The handler is the only statement that can
  raise: the archives are dicts whose similarity, when present, is a number, so the
  comparisons of \<open>_evaluate_results\<close> do not.
\<close>

definition wrap_tool_call ::
  "SearchRefinementMiddleware \<Rightarrow> ToolRequest \<Rightarrow> 'w handler \<Rightarrow> 'w
     \<Rightarrow> (exn + tool_reply) \<times> SearchRefinementState \<times> 'w" where
  "wrap_tool_call self request handler w =
     (if call_name (tool_call request) \<noteq> Some ''search_archives_db'' then
        (case handler request w of
           (Inl e, w') \<Rightarrow> (Inl e, state request, w')
         | (Inr result, w') \<Rightarrow> (Inr (Returned result), state request, w'))
      else
        let attempt_count = get_attempt_count (state request);
            previous_queries = get_previous_queries (state request);
            original_query =
              (if attempt_count = 0 then call_query (tool_call request)
               else original_user_query (state request));
            state1 =
              (if attempt_count = 0
               then (state request)\<lparr>original_user_query := original_query\<rparr>
               else state request)
        in (case handler (request\<lparr>state := state1\<rparr>) w of
              (Inl e, w') \<Rightarrow> (Inl e, state1, w')
            | (Inr result, w') \<Rightarrow>
                let current_query = call_query (tool_call request);
                    previous_queries = previous_queries @ [current_query];
                    archives = archives_of result;
                    results_good_enough = evaluate_results self archives;
                    state2 = state1\<lparr>search_attempt_count := Some (attempt_count + 1),
                                    previous_queries_tried := Some previous_queries\<rparr>
                in if results_good_enough \<or> attempt_count + 1 \<ge> max_attempts self
                   then (Inr (Returned result), state2, w')
                   else (Inr (ToolMessage
                                (refinement_content (length archives) previous_queries original_query)
                                (call_id (tool_call request))),
                         state2, w')))"

subsection \<open>The agent's side of the loop\<close>

text \<open>
  The class defaults of \<open>SearchRefinementState\<close>: the state a conversation starts from.
\<close>

definition initial_state :: SearchRefinementState where
  "initial_state =
     \<lparr>search_attempt_count = Some 0, original_user_query = None,
      previous_queries_tried = Some [], best_results = Some []\<rparr>"

text \<open>A call of the search tool with the query \<open>q\<close>, as the agent issues it.\<close>

definition search_call :: "string \<Rightarrow> ToolCall" where
  "search_call q =
     \<lparr>call_name = Some ''search_archives_db'', call_query = Some q, call_id = ''call''\<rparr>"

text \<open>
  How one search session ends: the middleware handed a tool result to the agent, the
  handler's exception left the middleware, or the middleware's last answer was a
  refinement request that the agent has not yet answered (also: no call was made).
\<close>

datatype session_outcome = Finished tool_result | Failed exn | Pending

text \<open>
  The middleware does not loop: it answers one tool call, and the agent calls again. The
  agent runtime is not part of the sources; its part of the loop is taken from the WORKFLOW
  of the system prompt in \<^verbatim>\<open>AGENT_REDESIGN_PLAN.md\<close> ("3. Call search_archives_db
  with the query. 4. If tool returns a refinement request: Generate a DIFFERENT refined query
  and search again. 5. Return structured results or helpful message"). The queries the agent
  comes up with are the list \<open>qs\<close>, first query first: the agent searches again exactly when
  the answer is a refinement request, and the state dict is carried from call to call.
\<close>

fun run_session ::
  "SearchRefinementMiddleware \<Rightarrow> 'w handler \<Rightarrow> string list \<Rightarrow> SearchRefinementState \<Rightarrow> 'w
     \<Rightarrow> session_outcome \<times> SearchRefinementState \<times> 'w" where
  "run_session self handler [] st w = (Pending, st, w)"
| "run_session self handler (q # qs) st w =
     (case wrap_tool_call self \<lparr>tool_call = search_call q, state = st\<rparr> handler w of
        (Inl e, st', w') \<Rightarrow> (Failed e, st', w')
      | (Inr (Returned result), st', w') \<Rightarrow> (Finished result, st', w')
      | (Inr (ToolMessage content tool_call_id), st', w') \<Rightarrow> run_session self handler qs st' w')"

text \<open>
  A probe for counting: the same handler, in a world that also counts how often the handler
  has been invoked.
\<close>

definition counting :: "'w handler \<Rightarrow> (nat \<times> 'w) handler" where
  "counting handler request =
     (\<lambda>(n, w). case handler request w of (r, w') \<Rightarrow> (r, (Suc n, w')))"

text \<open>
  A probe for recording: the same handler, in a world that also keeps, in order, the query
  of every request the handler has been invoked with and what the handler answered (its
  result, or the exception it raised).
\<close>

definition recording :: "'w handler \<Rightarrow> ((string option \<times> (exn + tool_result)) list \<times> 'w) handler" where
  "recording handler request =
     (\<lambda>(seen, w). case handler request w of
                     (r, w') \<Rightarrow> (r, (seen @ [(call_query (tool_call request), r)], w')))"

text \<open>Whether a recorded answer is a result (the search returned) or an exception.\<close>

definition returned :: "exn + tool_result \<Rightarrow> bool" where
  "returned answer = (case answer of Inl e \<Rightarrow> False | Inr result \<Rightarrow> True)"

text \<open>Whether a recorded answer is a result that \<open>_evaluate_results\<close> does not accept.\<close>

definition needs_refinement :: "SearchRefinementMiddleware \<Rightarrow> exn + tool_result \<Rightarrow> bool" where
  "needs_refinement self answer =
     (case answer of Inl e \<Rightarrow> False
      | Inr result \<Rightarrow> \<not> evaluate_results self (archives_of result))"

text \<open>
  The texts of the plan: the reply after the last attempt without relevant results
  ("Retry Limits").
\<close>

definition exhausted_message :: string where
  "exhausted_message =
     ''I couldn'' @ [CHR 0x27] @ ''t find relevant heritage materials matching your query. '' @
     ''Try describing what you'' @ [CHR 0x27] @ ''re looking for in different words, '' @
     ''or browse our collection for inspiration.''"

subsection \<open>Names for the states of one intercepted search\<close>

text \<open>
  The state dict when the handler is invoked (\<open>original_user_query\<close> stored on the first
  attempt), and when \<open>wrap_tool_call\<close> ends after the handler has returned. The lemmas
  \<open>wrap_search_raises\<close> and \<open>wrap_search_returns\<close> show that these are the states of
  \<open>wrap_tool_call\<close> itself.
\<close>

definition state_before_search :: "ToolRequest \<Rightarrow> SearchRefinementState" where
  "state_before_search request =
     (if get_attempt_count (state request) = 0
      then (state request)\<lparr>original_user_query := call_query (tool_call request)\<rparr>
      else state request)"

definition state_after_search :: "ToolRequest \<Rightarrow> SearchRefinementState" where
  "state_after_search request =
     (state_before_search request)
       \<lparr>search_attempt_count := Some (get_attempt_count (state request) + 1),
        previous_queries_tried :=
          Some (get_previous_queries (state request) @ [call_query (tool_call request)])\<rparr>"

definition request_of :: "string \<Rightarrow> SearchRefinementState \<Rightarrow> ToolRequest" where
  "request_of q st = \<lparr>tool_call = search_call q, state = st\<rparr>"

text \<open>
  A search tool for the examples (scenario D of the specification): nothing on the first
  attempt, one archive of similarity 0.25 on the second, one of similarity 0.3 afterwards.
\<close>

definition weak_results :: "unit handler" where
  "weak_results request w =
     (let n = get_attempt_count (state request) in
      (Inr (Tuple ''results''
              (if n = 0 then []
               else if n = 1 then [\<lparr>archive_id = ''a1'', similarity = Some 0.25\<rparr>]
               else [\<lparr>archive_id = ''a2'', similarity = Some 0.3\<rparr>])), w))"

subsection \<open>Intent categories\<close>

text \<open>
  The four categories and the reply for each, transcribed from the table "Agent Response by
  Category" of \<^verbatim>\<open>AGENT_REDESIGN_PLAN.md\<close> (lines 103 to 107; the same strings as
  section 6 of the specification).
\<close>

datatype Intent = HERITAGE_SEARCH | UNCLEAR | UNRELATED | GREETING

text \<open>\<open>None\<close>: "Proceed to Phase 2 (Query Generation)".\<close>

fun agent_response :: "Intent \<Rightarrow> string option" where
  "agent_response HERITAGE_SEARCH = None"
| "agent_response UNCLEAR = Some
     (''Could you please provide more details about what heritage materials you'' @ [CHR 0x27] @
      ''re looking for? For example, you could specify a type (batik, crafts, architecture), '' @
      ''location, or time period.'')"
| "agent_response UNRELATED = Some
     (''I can only help you search for heritage archive materials such as traditional crafts, '' @
      ''cultural artifacts, historical documents, and cultural media. '' @
      ''How can I assist you with heritage materials today?'')"
| "agent_response GREETING = Some
     (''Hello! I'' @ [CHR 0x27] @ ''m here to help you search our heritage archive. '' @
      ''What cultural materials or historical items would you like to explore?'')"

section \<open>The response contract and the chat panel\<close>

subsection \<open>SearchResponse\<close>

text \<open>
  The response model \<open>SearchResponse\<close> of the endpoint, which the frontend reads as
  \<open>AISearchResponse\<close>. The element type of \<open>archives\<close> (\<open>ArchiveResult\<close>,
  \<open>ArchiveResponse\<close>) is declared outside the sources and stays a type parameter. The field
  \<open>total\<close> is written \<open>total_n\<close>.
\<close>

record 'a SearchResponse =
  response_type :: string
  archives :: "'a list"
  total_n :: int
  query :: string
  message :: "string option"

text \<open>What the controller hands to the response formatter.\<close>

datatype 'a SearchOutcome = Results "'a list" | Message string

text \<open>
  Modelled from the spec: the message response ("Pattern B: response_type="message",
  archives=[], message populated" in the plan; section 6 of the specification). The endpoint
  \<^verbatim>\<open>ai_search_v2.py\<close> that builds the responses is not among the sources.
\<close>

definition message_response :: "string \<Rightarrow> string \<Rightarrow> 'a SearchResponse" where
  "message_response text q =
     \<lparr>response_type = ''message'', archives = [], total_n = 0, query = q, message = Some text\<rparr>"

text \<open>
  Modelled from the spec: the Response Formatter (the same endpoint, not among the sources).
  Sections 4.5 and 6 of the specification and the two patterns of the plan ("Pattern A:
  response_type="results", archives populated, message=None", pattern B as above); an empty
  result set collapses to the message of the exhausted search.
\<close>

definition format_response :: "'a SearchOutcome \<Rightarrow> string \<Rightarrow> 'a SearchResponse" where
  "format_response outcome q =
     (case outcome of
        Results items \<Rightarrow>
          if items = [] then message_response exhausted_message q
          else \<lparr>response_type = ''results'', archives = items, total_n = int (length items),
                 query = q, message = None\<rparr>
      | Message text \<Rightarrow> message_response text q)"

text \<open>
  Modelled from the spec: the state CLASSIFYING of the Refinement Controller (the agent
  \<^verbatim>\<open>agent_v2.py\<close> is not among the sources). Section 4.4: "If intent is not
  HERITAGE_SEARCH, transition directly to TERMINAL_MESSAGE with a fixed per-intent canned
  response - no search executes." The search path is a parameter; it alone gets to act on
  the outside world \<open>'w\<close>, where searches happen.
\<close>

definition respond ::
  "(string \<Rightarrow> Intent) \<Rightarrow> (string \<Rightarrow> 'w \<Rightarrow> 'a SearchResponse \<times> 'w) \<Rightarrow> string \<Rightarrow> 'w
     \<Rightarrow> 'a SearchResponse \<times> 'w" where
  "respond classify search_path utterance w =
     (case agent_response (classify utterance) of
        None \<Rightarrow> search_path utterance w
      | Some text \<Rightarrow> (format_response (Message text) utterance, w))"

subsection \<open>The chat panel: \<open>handleSend\<close> of \<^verbatim>\<open>ChatPanelV2.tsx\<close>\<close>

text \<open>
  Strings are lists of characters; \<open>trim\<close> is JavaScript's \<open>String.prototype.trim\<close> on
  the code units below 256: it strips TAB, LF, VT, FF, CR, SPACE and NBSP from both ends.
\<close>

definition is_white_space :: "char \<Rightarrow> bool" where
  "is_white_space c =
     (c \<in> set [CHR 0x09, CHR 0x0A, CHR 0x0B, CHR 0x0C, CHR 0x0D, CHR 0x20, CHR 0xA0])"

definition trim :: "string \<Rightarrow> string" where
  "trim s = rev (dropWhile is_white_space (rev (dropWhile is_white_space s)))"

text \<open>\<open>v || d\<close> for a \<open>string | null\<close>: the empty string is falsy as well.\<close>

definition or_else :: "string option \<Rightarrow> string \<Rightarrow> string" where
  "or_else v d = (case v of None \<Rightarrow> d | Some s \<Rightarrow> if s = [] then d else s)"

datatype role = user | assistant

text \<open>A selected \<open>File\<close> (its \<open>name\<close> and \<open>type\<close>) and the entry of \<open>files\<close> made of it.\<close>

record File =
  File_name :: string
  File_type :: string

record file_entry =
  file_name :: string
  file_url :: string
  file_type :: string

text \<open>
  \<open>ChatMessage\<close> of \<^verbatim>\<open>App.tsx\<close>. The id is kept as the number that
  \<open>toString()\<close> is applied to, and the time stamp as the clock's reading. \<open>'item\<close> is
  \<open>ArchiveItem\<close>.
\<close>

record 'item ChatMessage =
  msg_id :: int
  role :: role
  content :: string
  timestamp :: int
  files :: "file_entry list option"
  archiveResults :: "'item list option"

text \<open>The calls of \<open>toast\<close>, in order, are kept beside the component's state.\<close>

datatype toast = ToastSuccess "piece list" | ToastInfo string | ToastError string

record 'item ChatPanel =
  messages :: "'item ChatMessage list"
  input :: string
  selectedFiles :: "File list"
  isTyping :: bool
  toasts :: "toast list"

text \<open>What \<open>catch (error)\<close> receives: an \<open>Error\<close> with its message, or any other value.\<close>

datatype thrown = Error string | NotAnError

definition error_text :: "thrown \<Rightarrow> string" where
  "error_text error = (case error of Error m \<Rightarrow> m | NotAnError \<Rightarrow> ''Unknown error'')"

text \<open>
  \<open>handleSend\<close>. Its surroundings are parameters: \<open>aiSearchArchives\<close> (the call of the
  backend, acting on the outside world \<open>'w\<close>; it returns the response or throws),
  \<open>toArchiveItem\<close> (the arrow function given to \<open>result.archives.map\<close>, which reads the
  fields of \<open>ArchiveResponse\<close>, a type declared outside the sources),
  \<open>createObjectURL\<close> and the clock \<open>now\<close> (\<open>Date.now()\<close>, read from the world).
  The state setters are applied in the order of the code.
\<close>

definition handleSend ::
  "(string \<Rightarrow> 'w \<Rightarrow> (thrown + 'a SearchResponse) \<times> 'w) \<Rightarrow> ('a \<Rightarrow> 'item) \<Rightarrow> (File \<Rightarrow> string)
     \<Rightarrow> ('w \<Rightarrow> int) \<Rightarrow> 'item ChatPanel \<Rightarrow> 'w \<Rightarrow> 'item ChatPanel \<times> 'w" where
  "handleSend aiSearchArchives toArchiveItem createObjectURL now panel w =
     (let queryText = trim (input panel) in
      if queryText = [] \<and> length (selectedFiles panel) = 0 then (panel, w)
      else
        let userMessage =
              \<lparr>msg_id = now w, role = user,
               content = (if queryText = [] then ''Uploaded files for analysis'' else queryText),
               timestamp = now w,
               files = Some (map (\<lambda>file. \<lparr>file_name = File_name file,
                                            file_url = createObjectURL file,
                                            file_type = File_type file\<rparr>) (selectedFiles panel)),
               archiveResults = None\<rparr>;
            panel1 = panel\<lparr>input := [], selectedFiles := [],
                           messages := messages panel @ [userMessage], isTyping := True\<rparr>
        in (case aiSearchArchives queryText w of
              (Inr result, w') \<Rightarrow>
                if response_type result = ''message'' then
                  let aiMessage =
                        \<lparr>msg_id = now w' + 1, role = assistant,
                         content = or_else (message result) ''I can help you search our heritage archive.'',
                         timestamp = now w', files = None, archiveResults = None\<rparr>
                  in (panel1\<lparr>messages := messages panel1 @ [aiMessage], isTyping := False\<rparr>, w')
                else
                  let searchResults = map toArchiveItem (archives result);
                      aiMessage =
                        \<lparr>msg_id = now w' + 1, role = assistant,
                         content = or_else (message result) [],
                         timestamp = now w', files = None,
                         archiveResults = (if length searchResults > 0 then Some searchResults else None)\<rparr>;
                      feedback =
                        (if length searchResults > 0
                         then ToastSuccess [Lit ''Found '', Count (length searchResults),
                                            Lit '' matching archive(s)'']
                         else ToastInfo (or_else (message result)
                                           ''No matching archives found. Try different keywords.''))
                  in (panel1\<lparr>messages := messages panel1 @ [aiMessage],
                             toasts := toasts panel1 @ [feedback], isTyping := False\<rparr>, w')
            | (Inl error, w') \<Rightarrow>
                let errorMessage =
                      \<lparr>msg_id = now w' + 1, role = assistant,
                       content = ''Sorry, search failed: '' @ error_text error @ ''. Please try again.'',
                       timestamp = now w', files = None, archiveResults = None\<rparr>
                in (panel1\<lparr>messages := messages panel1 @ [errorMessage],
                           toasts := toasts panel1 @ [ToastError ''Search failed. Please try again.''],
                           isTyping := False\<rparr>, w')))"

text \<open>A probe for counting the calls of the backend, as \<open>counting\<close> does for the handler.\<close>

definition counting_calls ::
  "(string \<Rightarrow> 'w \<Rightarrow> (thrown + 'a SearchResponse) \<times> 'w)
     \<Rightarrow> string \<Rightarrow> nat \<times> 'w \<Rightarrow> (thrown + 'a SearchResponse) \<times> (nat \<times> 'w)" where
  "counting_calls api q = (\<lambda>(n, w). case api q w of (r, w') \<Rightarrow> (r, (Suc n, w')))"

text \<open>
  Names for the messages \<open>handleSend\<close> builds: the user's message, and an assistant's
  message read at time \<open>t\<close> (\<open>aiMessage\<close> and \<open>errorMessage\<close> have this shape).
\<close>

definition user_message ::
  "(File \<Rightarrow> string) \<Rightarrow> ('w \<Rightarrow> int) \<Rightarrow> 'item ChatPanel \<Rightarrow> 'w \<Rightarrow> 'item ChatMessage" where
  "user_message createObjectURL now panel w =
     \<lparr>msg_id = now w, role = user,
      content = (if trim (input panel) = [] then ''Uploaded files for analysis''
                 else trim (input panel)),
      timestamp = now w,
      files = Some (map (\<lambda>file. \<lparr>file_name = File_name file, file_url = createObjectURL file,
                                   file_type = File_type file\<rparr>) (selectedFiles panel)),
      archiveResults = None\<rparr>"

definition assistant_message :: "int \<Rightarrow> string \<Rightarrow> 'item list option \<Rightarrow> 'item ChatMessage" where
  "assistant_message t text results =
     \<lparr>msg_id = t + 1, role = assistant, content = text, timestamp = t, files = None,
      archiveResults = results\<rparr>"

subsection \<open>A search turn from the utterance to the panel\<close>

text \<open>What a search turn gives the endpoint's caller: a response, or a failure of the service.\<close>

datatype turn_result = Answer "archive SearchResponse" | ServiceFailure exn

text \<open>
  Modelled from the spec: the search path of the Refinement Controller together with the
  Response Formatter (the agent \<^verbatim>\<open>agent_v2.py\<close> and the endpoint
  \<^verbatim>\<open>ai_search_v2.py\<close> are not among the sources). Every attempt goes through
  \<open>wrap_tool_call\<close>, which is in the sources and decides between refining and stopping.
  Section 4.4: a refinement request leads to the next query (REFINING); a result that is
  good enough is emitted as \<open>Results\<close> (DONE); a result that is not, at the attempt limit,
  gives the message of the exhausted search (EXHAUSTED). Section 7: a failure of the search
  primitive is "not retried by the refinement loop itself" and is "surfaced to the caller as
  a distinct failure response, separate from the message response-type"; a generator that
  has no further query is an exhaustion signal. The queries of the generator are the list
  \<open>qs\<close>.
\<close>

fun search_turn ::
  "SearchRefinementMiddleware \<Rightarrow> 'w handler \<Rightarrow> string list \<Rightarrow> string \<Rightarrow> SearchRefinementState
     \<Rightarrow> 'w \<Rightarrow> turn_result \<times> SearchRefinementState \<times> 'w" where
  "search_turn self handler [] utterance st w =
     (Answer (format_response (Message exhausted_message) utterance), st, w)"
| "search_turn self handler (q # qs) utterance st w =
     (case wrap_tool_call self \<lparr>tool_call = search_call q, state = st\<rparr> handler w of
        (Inl e, st', w') \<Rightarrow> (ServiceFailure e, st', w')
      | (Inr (ToolMessage request_content tool_call_id), st', w') \<Rightarrow>
          search_turn self handler qs utterance st' w'
      | (Inr (Returned result), st', w') \<Rightarrow>
          (Answer (format_response
                     (if evaluate_results self (archives_of result)
                      then Results (archives_of result)
                      else Message exhausted_message) utterance), st', w'))"

text \<open>
  Modelled from the spec: the endpoint for an utterance that is a heritage search (not among
  the sources). Section 3: the session is "created at turn start, discarded at turn end";
  \<open>generate\<close> stands for the Query Generator.
\<close>

definition backend ::
  "SearchRefinementMiddleware \<Rightarrow> 'w handler \<Rightarrow> (string \<Rightarrow> string list) \<Rightarrow> string \<Rightarrow> 'w
     \<Rightarrow> turn_result \<times> 'w" where
  "backend self handler generate utterance w =
     (case search_turn self handler (generate utterance) utterance initial_state w of
        (out, st', w') \<Rightarrow> (out, w'))"

text \<open>
  Modelled from the spec: \<open>aiSearchArchives\<close> of \<^verbatim>\<open>services/api\<close> (not among the
  sources) in front of such an endpoint. Section 7: "Transport/infrastructure failures
  propagate as a distinct error channel (HTTP 5xx equivalent), not disguised as a
  conversational message": the call throws an \<open>Error\<close>, whose message \<open>describe\<close> makes
  of the failure; a response is returned as it is.
\<close>

definition api_client ::
  "(exn \<Rightarrow> string) \<Rightarrow> (string \<Rightarrow> 'w \<Rightarrow> turn_result \<times> 'w) \<Rightarrow> string \<Rightarrow> 'w
     \<Rightarrow> (thrown + archive SearchResponse) \<times> 'w" where
  "api_client describe endpoint q w =
     (case endpoint q w of
        (Answer response, w') \<Rightarrow> (Inr response, w')
      | (ServiceFailure e, w') \<Rightarrow> (Inl (Error (describe e)), w'))"

subsection \<open>Values for the examples\<close>

text \<open>
  A backend that is away, a classifier for the examples of the plan ("hello", "tell me a
  joke", "stuff"), a backend built on it, and a chat panel.
\<close>

definition backend_away :: "string \<Rightarrow> unit \<Rightarrow> (thrown + nat SearchResponse) \<times> unit" where
  "backend_away q w = (Inl (Error ''Service Unavailable''), w)"

definition plan_examples :: "string \<Rightarrow> Intent" where
  "plan_examples utterance =
     (if utterance = ''hello'' then GREETING
      else if utterance = ''tell me a joke'' then UNRELATED
      else if utterance = ''stuff'' then UNCLEAR
      else HERITAGE_SEARCH)"

text \<open>A search path that finds three archives; the world counts the searches executed.\<close>

definition three_results :: "string \<Rightarrow> nat \<Rightarrow> nat SearchResponse \<times> nat" where
  "three_results utterance n = (format_response (Results [1, 2, 3]) utterance, Suc n)"

definition backend_greeting :: "string \<Rightarrow> nat \<Rightarrow> (thrown + nat SearchResponse) \<times> nat" where
  "backend_greeting q n =
     (case respond plan_examples three_results q n of (r, n') \<Rightarrow> (Inr r, n'))"

text \<open>
  A search tool that returns nothing on the first attempt and times out on the second, and
  a generator with three queries.
\<close>

definition times_out_on_retry :: "unit handler" where
  "times_out_on_retry request w =
     (if get_attempt_count (state request) = 0 then (Inr (Tuple ''results'' []), w)
      else (Inl (TimeoutError ''search timed out''), w))"

definition broaden :: "string \<Rightarrow> string list" where
  "broaden utterance = [utterance, utterance @ '' heritage'', ''heritage'']"

definition panel_with :: "string \<Rightarrow> nat ChatPanel" where
  "panel_with text =
     \<lparr>messages = [], input = text, selectedFiles = [], isTyping = False, toasts = []\<rparr>"

definition object_url :: "File \<Rightarrow> string" where
  "object_url file = ''blob:'' @ File_name file"

section \<open>Theorems\<close>

subsection \<open>One intercepted search\<close>

lemma state_before_search_simps [simp]:
  "get_attempt_count (state_before_search request) = get_attempt_count (state request)"
  "get_previous_queries (state_before_search request) = get_previous_queries (state request)"
  "best_results (state_before_search request) = best_results (state request)"
  "search_attempt_count (state_before_search request) = search_attempt_count (state request)"
  "previous_queries_tried (state_before_search request) = previous_queries_tried (state request)"
  by (simp_all add: state_before_search_def get_attempt_count_def get_previous_queries_def)

lemma state_after_search_simps [simp]:
  "get_attempt_count (state_after_search request) = get_attempt_count (state request) + 1"
  "get_previous_queries (state_after_search request) =
     get_previous_queries (state request) @ [call_query (tool_call request)]"
  "best_results (state_after_search request) = best_results (state request)"
  "search_attempt_count (state_after_search request) = Some (get_attempt_count (state request) + 1)"
  by (simp_all add: state_after_search_def get_attempt_count_def get_previous_queries_def)

lemma wrap_search_raises:
  assumes "call_name (tool_call request) = Some ''search_archives_db''"
    and "handler (request\<lparr>state := state_before_search request\<rparr>) w = (Inl e, w')"
  shows "wrap_tool_call self request handler w = (Inl e, state_before_search request, w')"
proof (cases "get_attempt_count (state request) = 0")
  case True
  with assms show ?thesis
    by (simp add: wrap_tool_call_def state_before_search_def Let_def)
next
  case False
  with assms show ?thesis
    by (simp add: wrap_tool_call_def state_before_search_def Let_def)
qed

lemma wrap_search_returns:
  assumes "call_name (tool_call request) = Some ''search_archives_db''"
    and "handler (request\<lparr>state := state_before_search request\<rparr>) w = (Inr result, w')"
  shows "wrap_tool_call self request handler w =
     (Inr (if evaluate_results self (archives_of result)
              \<or> max_attempts self \<le> get_attempt_count (state request) + 1
           then Returned result
           else ToolMessage
                  (refinement_content (length (archives_of result))
                     (get_previous_queries (state request) @ [call_query (tool_call request)])
                     (original_user_query (state_before_search request)))
                  (call_id (tool_call request))),
      state_after_search request, w')"
proof (cases "get_attempt_count (state request) = 0")
  case True
  with assms show ?thesis
    by (simp add: wrap_tool_call_def state_before_search_def state_after_search_def Let_def)
next
  case False
  with assms show ?thesis
    by (simp add: wrap_tool_call_def state_before_search_def state_after_search_def Let_def)
qed

subsection \<open>One session\<close>

lemma request_of_simps [simp]:
  "tool_call (request_of q st) = search_call q"
  "state (request_of q st) = st"
  "call_name (search_call q) = Some ''search_archives_db''"
  "call_query (search_call q) = Some q"
  by (simp_all add: request_of_def search_call_def)

lemma run_session_step:
  "run_session self handler (q # qs) st w =
     (case handler ((request_of q st)\<lparr>state := state_before_search (request_of q st)\<rparr>) w of
        (Inl e, w') \<Rightarrow> (Failed e, state_before_search (request_of q st), w')
      | (Inr result, w') \<Rightarrow>
          if evaluate_results self (archives_of result) \<or> max_attempts self \<le> get_attempt_count st + 1
          then (Finished result, state_after_search (request_of q st), w')
          else run_session self handler qs (state_after_search (request_of q st)) w')"
proof (cases "handler ((request_of q st)\<lparr>state := state_before_search (request_of q st)\<rparr>) w")
  case (Pair r w')
  show ?thesis
  proof (cases r)
    case (Inl e)
    with Pair show ?thesis
      using wrap_search_raises [of "request_of q st" handler w e w' self]
      by (simp add: request_of_def [symmetric])
  next
    case (Inr result)
    with Pair show ?thesis
      using wrap_search_returns [of "request_of q st" handler w result w' self]
      by (simp add: request_of_def [symmetric])
  qed
qed

declare run_session.simps(2) [simp del]

lemma counting_apply:
  "counting handler request (n, w) = (case handler request w of (r, w') \<Rightarrow> (r, (Suc n, w')))"
  by (simp add: counting_def)

lemma run_session_bound:
  assumes "get_attempt_count st < max_attempts self"
    and "run_session self (counting handler) qs st (n, w) = (out, st', (n', w'))"
  shows "get_attempt_count st' \<le> max_attempts self
         \<and> int n' - int n \<le> max_attempts self - get_attempt_count st"
  using assms
proof (induction qs arbitrary: st n w)
  case Nil
  then show ?case by simp
next
  case (Cons q qs)
  obtain r w1 where h:
    "handler ((request_of q st)\<lparr>state := state_before_search (request_of q st)\<rparr>) w = (r, w1)"
    by (cases "handler ((request_of q st)\<lparr>state := state_before_search (request_of q st)\<rparr>) w") auto
  show ?case
  proof (cases r)
    case (Inl e)
    with h Cons.prems show ?thesis
      by (auto simp: run_session_step counting_apply)
  next
    case (Inr result)
    show ?thesis
    proof (cases "evaluate_results self (archives_of result)
                    \<or> max_attempts self \<le> get_attempt_count st + 1")
      case True
      with h Inr Cons.prems show ?thesis
        by (auto simp: run_session_step counting_apply)
    next
      case False
      then have lt: "get_attempt_count (state_after_search (request_of q st)) < max_attempts self"
        by simp
      from False h Inr Cons.prems(2)
      have run: "run_session self (counting handler) qs (state_after_search (request_of q st))
                   (Suc n, w1) = (out, st', (n', w'))"
        by (simp add: run_session_step counting_apply)
      from Cons.IH [OF lt run] show ?thesis by simp
    qed
  qed
qed

lemmas eval_defs =
  init_def initial_state_def weak_results_def counting_apply run_session_step
  evaluate_results_def archives_of_def get_similarity_def get_attempt_count_def
  get_previous_queries_def state_before_search_def state_after_search_def
  request_of_def search_call_def Let_def

text \<open>
  C1 (amended). A session that starts with the attempt counter at 0, under a middleware with
  \<open>max_attempts \<ge> 1\<close>: whatever the search tool returns or raises and however many queries
  the agent has, the handler is invoked at most \<open>max_attempts\<close> times and the counter never
  exceeds \<open>max_attempts\<close>. Every prefix of \<open>qs\<close> is such a session, so the bound holds after
  every step of the loop; with \<open>max_attempts = 3\<close> there is no 4th search.
\<close>

theorem attempt_bound:
  assumes "1 \<le> max_attempts self" and "get_attempt_count st = 0"
  shows "case run_session self (counting handler) qs st (0, w) of
           (out, st', (n, w')) \<Rightarrow>
             int n \<le> max_attempts self \<and> get_attempt_count st' \<le> max_attempts self"
proof (cases "run_session self (counting handler) qs st (0, w)")
  case (fields out st' n w')
  from assms have "get_attempt_count st < max_attempts self" by simp
  from run_session_bound [OF this fields] assms(2) fields
  show ?thesis by simp
qed

theorem attempt_bound_witness:
  "1 \<le> max_attempts (init None None) \<and> get_attempt_count initial_state = 0
   \<and> run_session (init None None) (counting weak_results) [''q1'', ''q2'', ''q3'', ''q4'']
         initial_state (0, ())
       = (Finished (Tuple ''results'' [\<lparr>archive_id = ''a2'', similarity = Some 0.3\<rparr>]),
          \<lparr>search_attempt_count = Some 3, original_user_query = Some ''q1'',
           previous_queries_tried = Some [Some ''q1'', Some ''q2'', Some ''q3''],
           best_results = Some []\<rparr>, (3, ()))
   \<and> (case run_session (init None None) (counting weak_results) [''q1'', ''q2'', ''q3'', ''q4'']
              initial_state (0, ()) of
         (out, st', (n, w')) \<Rightarrow>
           int n \<le> max_attempts (init None None)
           \<and> get_attempt_count st' \<le> max_attempts (init None None))"
  using attempt_bound [of "init None None" initial_state weak_results
      "[''q1'', ''q2'', ''q3'', ''q4'']" "()"]
  by (simp add: eval_defs)

text \<open>
  The claim as stated fails for a middleware built with \<open>max_attempts = 0\<close>: the search is
  executed before the bound is looked at, so one search runs and the counter becomes 1.
\<close>

theorem attempt_bound_counterexample:
  "max_attempts (init (Some 0) None) = 0
   \<and> run_session (init (Some 0) None) (counting weak_results) [''q1''] initial_state (0, ())
       = (Finished (Tuple ''results'' []),
          \<lparr>search_attempt_count = Some 1, original_user_query = Some ''q1'',
           previous_queries_tried = Some [Some ''q1''], best_results = Some []\<rparr>, (1, ()))"
  by (simp add: eval_defs)

text \<open>
  Nor does \<open>wrap_tool_call\<close> refuse a call that arrives when the counter has already
  reached \<open>max_attempts\<close>: the search runs and the counter becomes 4.
\<close>

lemma search_not_blocked_at_limit:
  "wrap_tool_call (init None None)
      (request_of ''q4'' (initial_state\<lparr>search_attempt_count := Some 3\<rparr>))
      (counting weak_results) (0, ())
     = (Inr (Returned (Tuple ''results'' [\<lparr>archive_id = ''a2'', similarity = Some 0.3\<rparr>])),
        \<lparr>search_attempt_count = Some 4, original_user_query = None,
         previous_queries_tried = Some [Some ''q4''], best_results = Some []\<rparr>, (1, ()))"
  by (simp add: wrap_tool_call_def eval_defs)

subsection \<open>What a session records\<close>

lemma recording_apply:
  "recording handler request (seen, w) =
     (case handler request w of
        (r, w') \<Rightarrow> (r, (seen @ [(call_query (tool_call request), r)], w')))"
  by (simp add: recording_def)

text \<open>
  The record of a session, entry by entry: the queries searched are the agent's queries in
  order; the queries tried and the counter grow by the searches that returned; every search
  but the last returned a result that needed refinement; and the last entry is the
  exception, or the result handed to the agent.
\<close>

lemma run_session_trace:
  assumes "run_session self (recording handler) qs st (seen0, w) = (out, st', (seen, w'))"
  shows "\<exists>new. seen = seen0 @ new
     \<and> map fst new = map Some (take (length new) qs)
     \<and> get_previous_queries st' = get_previous_queries st @ map fst (filter (returned \<circ> snd) new)
     \<and> get_attempt_count st' = get_attempt_count st + int (length (filter (returned \<circ> snd) new))
     \<and> list_all (needs_refinement self \<circ> snd) (butlast new)
     \<and> (case out of
          Failed e \<Rightarrow> new \<noteq> [] \<and> snd (last new) = Inl e
        | Finished result \<Rightarrow> new \<noteq> [] \<and> snd (last new) = Inr result
            \<and> (evaluate_results self (archives_of result)
                \<or> max_attempts self \<le> get_attempt_count st')
        | Pending \<Rightarrow> length new = length qs \<and> list_all (needs_refinement self \<circ> snd) new
            \<and> (new = [] \<or> get_attempt_count st' < max_attempts self))"
  using assms
proof (induction qs arbitrary: st seen0 w)
  case Nil
  then show ?case by simp
next
  case (Cons q qs)
  let ?req = "(request_of q st)\<lparr>state := state_before_search (request_of q st)\<rparr>"
  obtain r w1 where h: "handler ?req w = (r, w1)" by (cases "handler ?req w") auto
  show ?case
  proof (cases r)
    case (Inl e)
    with h Cons.prems have "out = Failed e" "st' = state_before_search (request_of q st)"
      "seen = seen0 @ [(Some q, Inl e)]"
      by (simp_all add: run_session_step recording_apply)
    then show ?thesis
      by (intro exI [of _ "[(Some q, Inl e)]"]) (simp add: returned_def)
  next
    case (Inr result)
    show ?thesis
    proof (cases "evaluate_results self (archives_of result)
                    \<or> max_attempts self \<le> get_attempt_count st + 1")
      case True
      with h Inr Cons.prems have "out = Finished result"
        "st' = state_after_search (request_of q st)" "seen = seen0 @ [(Some q, Inr result)]"
        by (auto simp: run_session_step recording_apply)
      with True show ?thesis
        by (intro exI [of _ "[(Some q, Inr result)]"]) (auto simp: returned_def)
    next
      case False
      let ?st = "state_after_search (request_of q st)"
      let ?x = "(Some q, Inr result) :: string option \<times> (exn + tool_result)"
      from False h Inr Cons.prems
      have run: "run_session self (recording handler) qs ?st (seen0 @ [?x], w1)
                   = (out, st', (seen, w'))"
        by (simp add: run_session_step recording_apply)
      from Cons.IH [OF run] obtain new where n:
        "seen = (seen0 @ [?x]) @ new"
        "map fst new = map Some (take (length new) qs)"
        "get_previous_queries st' = get_previous_queries ?st @ map fst (filter (returned \<circ> snd) new)"
        "get_attempt_count st' = get_attempt_count ?st + int (length (filter (returned \<circ> snd) new))"
        "list_all (needs_refinement self \<circ> snd) (butlast new)"
        "case out of
          Failed e \<Rightarrow> new \<noteq> [] \<and> snd (last new) = Inl e
        | Finished result \<Rightarrow> new \<noteq> [] \<and> snd (last new) = Inr result
            \<and> (evaluate_results self (archives_of result)
                \<or> max_attempts self \<le> get_attempt_count st')
        | Pending \<Rightarrow> length new = length qs \<and> list_all (needs_refinement self \<circ> snd) new
            \<and> (new = [] \<or> get_attempt_count st' < max_attempts self)"
        by blast
      have x: "returned (snd ?x)" "needs_refinement self (snd ?x)"
        using False by (simp_all add: returned_def needs_refinement_def)
      have empty: "get_attempt_count st' < max_attempts self" if "new = []"
        using that n(4) False by simp
      show ?thesis
      proof (intro exI [of _ "?x # new"] conjI)
        show "seen = seen0 @ ?x # new" using n(1) by simp
        show "map fst (?x # new) = map Some (take (length (?x # new)) (q # qs))"
          using n(2) by simp
        show "get_previous_queries st'
                = get_previous_queries st @ map fst (filter (returned \<circ> snd) (?x # new))"
          using n(3) x by simp
        show "get_attempt_count st'
                = get_attempt_count st + int (length (filter (returned \<circ> snd) (?x # new)))"
          using n(4) x by simp
        show "list_all (needs_refinement self \<circ> snd) (butlast (?x # new))"
          using n(5) x by simp
        show "case out of
          Failed e \<Rightarrow> ?x # new \<noteq> [] \<and> snd (last (?x # new)) = Inl e
        | Finished result \<Rightarrow> ?x # new \<noteq> [] \<and> snd (last (?x # new)) = Inr result
            \<and> (evaluate_results self (archives_of result)
                \<or> max_attempts self \<le> get_attempt_count st')
        | Pending \<Rightarrow> length (?x # new) = length (q # qs)
            \<and> list_all (needs_refinement self \<circ> snd) (?x # new)
            \<and> (?x # new = [] \<or> get_attempt_count st' < max_attempts self)"
          using n(6) x empty by (cases out) auto
      qed
    qed
  qed
qed

lemma run_session_counter_bound:
  assumes "get_attempt_count st < max_attempts self"
    and "run_session self handler qs st w = (out, st', w')"
  shows "get_attempt_count st' \<le> max_attempts self"
  using assms
proof (induction qs arbitrary: st w)
  case Nil
  then show ?case by simp
next
  case (Cons q qs)
  let ?req = "(request_of q st)\<lparr>state := state_before_search (request_of q st)\<rparr>"
  obtain r w1 where h: "handler ?req w = (r, w1)" by (cases "handler ?req w") auto
  show ?case
  proof (cases r)
    case (Inl e)
    with h Cons.prems show ?thesis by (auto simp: run_session_step)
  next
    case (Inr result)
    show ?thesis
    proof (cases "evaluate_results self (archives_of result)
                    \<or> max_attempts self \<le> get_attempt_count st + 1")
      case True
      with h Inr Cons.prems show ?thesis by (auto simp: run_session_step)
    next
      case False
      then have lt: "get_attempt_count (state_after_search (request_of q st)) < max_attempts self"
        by simp
      from False h Inr Cons.prems(2)
      have "run_session self handler qs (state_after_search (request_of q st)) w1 = (out, st', w')"
        by (simp add: run_session_step)
      from Cons.IH [OF lt this] show ?thesis .
    qed
  qed
qed

text \<open>The search turn is the session, with its end turned into what the caller gets.\<close>

lemma search_turn_run_session:
  "search_turn self handler qs utterance st w =
     (case run_session self handler qs st w of
        (Finished result, st', w') \<Rightarrow>
          (Answer (format_response
                     (if evaluate_results self (archives_of result)
                      then Results (archives_of result)
                      else Message exhausted_message) utterance), st', w')
      | (Failed e, st', w') \<Rightarrow> (ServiceFailure e, st', w')
      | (Pending, st', w') \<Rightarrow>
          (Answer (format_response (Message exhausted_message) utterance), st', w'))"
proof (induction qs arbitrary: st w)
  case Nil
  show ?case by simp
next
  case (Cons q qs)
  show ?case
    by (simp add: run_session.simps(2) Cons.IH split: prod.splits sum.splits tool_reply.splits)
qed

lemma search_turn_session:
  assumes "search_turn self handler qs utterance st w = (out, st', w')"
  obtains o2 where "run_session self handler qs st w = (o2, st', w')"
    and "out = (case o2 of
                  Finished result \<Rightarrow>
                    Answer (format_response
                      (if evaluate_results self (archives_of result)
                       then Results (archives_of result)
                       else Message exhausted_message) utterance)
                | Failed e \<Rightarrow> ServiceFailure e
                | Pending \<Rightarrow> Answer (format_response (Message exhausted_message) utterance))"
  using assms
  by (cases "run_session self handler qs st w")
     (auto simp: search_turn_run_session split: session_outcome.splits)

lemma needs_refinement_returned: "needs_refinement self answer \<Longrightarrow> returned answer"
  by (cases answer) (simp_all add: needs_refinement_def returned_def)

lemma filter_all_returned:
  "list_all (needs_refinement self \<circ> snd) xs \<Longrightarrow> filter (returned \<circ> snd) xs = xs"
  by (induction xs) (auto dest: needs_refinement_returned)

lemma exhausted_text:
  "format_response (Message exhausted_message) utterance
     = \<lparr>response_type = ''message'', archives = [], total_n = 0, query = utterance,
        message = Some (''I couldn'' @ [CHR 0x27] @ ''t find relevant heritage materials matching your query. '' @
                        ''Try describing what you'' @ [CHR 0x27] @ ''re looking for in different words, '' @
                        ''or browse our collection for inspiration.'')\<rparr>"
  by (simp add: format_response_def message_response_def exhausted_message_def)

lemmas turn_defs =
  search_turn_run_session backend_def api_client_def recording_apply needs_refinement_def
  returned_def format_response_def message_response_def exhausted_message_def
  times_out_on_retry_def broaden_def

subsection \<open>Exhausted sessions\<close>

text \<open>
  C3. A search turn that starts with a fresh counter (\<open>max_attempts \<ge> 1\<close>, the generator
  having that many queries) and in which every search the handler was invoked for returned
  a result that needs refinement: the turn ends after exactly \<open>max_attempts\<close> searches, with
  the counter at \<open>max_attempts\<close>, and the caller gets the message response with the text of
  the exhausted search, character for character, and no archive at all, whatever
  similarities the attempts had reached.
\<close>

theorem exhausted_session_gets_exhaustion_message:
  assumes "1 \<le> max_attempts self" and "get_attempt_count st = 0"
    and "nat (max_attempts self) \<le> length qs"
    and "search_turn self (recording handler) qs utterance st ([], w) = (out, st', (seen, w'))"
    and "list_all (needs_refinement self \<circ> snd) seen"
  shows "out = Answer \<lparr>response_type = ''message'', archives = [], total_n = 0, query = utterance,
                        message = Some (''I couldn'' @ [CHR 0x27] @ ''t find relevant heritage materials matching your query. '' @
                                        ''Try describing what you'' @ [CHR 0x27] @ ''re looking for in different words, '' @
                                        ''or browse our collection for inspiration.'')\<rparr>
         \<and> length seen = nat (max_attempts self)
         \<and> map fst seen = map Some (take (nat (max_attempts self)) qs)
         \<and> get_attempt_count st' = max_attempts self"
proof -
  from assms(4) obtain o2
    where run: "run_session self (recording handler) qs st ([], w) = (o2, st', (seen, w'))"
    and out: "out = (case o2 of
                 Finished result \<Rightarrow>
                   Answer (format_response
                     (if evaluate_results self (archives_of result)
                      then Results (archives_of result)
                      else Message exhausted_message) utterance)
               | Failed e \<Rightarrow> ServiceFailure e
               | Pending \<Rightarrow> Answer (format_response (Message exhausted_message) utterance))"
    by (rule search_turn_session)
  from run_session_trace [OF run] have
    q: "map fst seen = map Some (take (length seen) qs)"
    and c: "get_attempt_count st' = get_attempt_count st + int (length (filter (returned \<circ> snd) seen))"
    and o: "case o2 of
          Failed e \<Rightarrow> seen \<noteq> [] \<and> snd (last seen) = Inl e
        | Finished result \<Rightarrow> seen \<noteq> [] \<and> snd (last seen) = Inr result
            \<and> (evaluate_results self (archives_of result)
                \<or> max_attempts self \<le> get_attempt_count st')
        | Pending \<Rightarrow> length seen = length qs \<and> list_all (needs_refinement self \<circ> snd) seen
            \<and> (seen = [] \<or> get_attempt_count st' < max_attempts self)"
    by auto
  from c assms(2,5) have cnt: "get_attempt_count st' = int (length seen)"
    by (simp add: filter_all_returned)
  have last_ok: "needs_refinement self (snd (last seen))" if "seen \<noteq> []"
    using that assms(5) by (simp add: list_all_iff)
  from assms(1,2) have lt: "get_attempt_count st < max_attempts self" by simp
  have le: "get_attempt_count st' \<le> max_attempts self"
    by (rule run_session_counter_bound [OF lt run])
  show ?thesis
  proof (cases o2)
    case (Finished result)
    with o last_ok have "\<not> evaluate_results self (archives_of result)"
      "max_attempts self \<le> get_attempt_count st'"
      by (auto simp: needs_refinement_def)
    with Finished out le cnt q show ?thesis
      by (simp add: exhausted_text)
  next
    case (Failed e)
    with o last_ok show ?thesis by (simp add: needs_refinement_def)
  next
    case Pending
    with o cnt assms(1,3) show ?thesis by auto
  qed
qed

theorem exhausted_session_gets_exhaustion_message_witness:
  "1 \<le> max_attempts (init None None) \<and> get_attempt_count initial_state = 0
   \<and> nat (max_attempts (init None None)) \<le> length [''show me something'', ''heritage items'', ''cultural heritage'']
   \<and> search_turn (init None None) (recording weak_results)
        [''show me something'', ''heritage items'', ''cultural heritage'']
        ''show me something'' initial_state ([], ())
      = (Answer \<lparr>response_type = ''message'', archives = [], total_n = 0,
                 query = ''show me something'',
                 message = Some (''I couldn'' @ [CHR 0x27] @ ''t find relevant heritage materials matching your query. '' @
                                 ''Try describing what you'' @ [CHR 0x27] @ ''re looking for in different words, '' @
                                 ''or browse our collection for inspiration.'')\<rparr>,
         \<lparr>search_attempt_count = Some 3, original_user_query = Some ''show me something'',
          previous_queries_tried =
            Some [Some ''show me something'', Some ''heritage items'', Some ''cultural heritage''],
          best_results = Some []\<rparr>,
         ([(Some ''show me something'', Inr (Tuple ''results'' [])),
           (Some ''heritage items'',
            Inr (Tuple ''results'' [\<lparr>archive_id = ''a1'', similarity = Some 0.25\<rparr>])),
           (Some ''cultural heritage'',
            Inr (Tuple ''results'' [\<lparr>archive_id = ''a2'', similarity = Some 0.3\<rparr>]))], ()))
   \<and> list_all (needs_refinement (init None None) \<circ> snd)
          [(Some ''show me something'', Inr (Tuple ''results'' [])),
           (Some ''heritage items'',
            Inr (Tuple ''results'' [\<lparr>archive_id = ''a1'', similarity = Some 0.25\<rparr>])),
           (Some ''cultural heritage'',
            Inr (Tuple ''results'' [\<lparr>archive_id = ''a2'', similarity = Some 0.3\<rparr>]))]
   \<and> get_attempt_count \<lparr>search_attempt_count = Some 3, original_user_query = Some ''show me something'',
          previous_queries_tried =
            Some [Some ''show me something'', Some ''heritage items'', Some ''cultural heritage''],
          best_results = Some []\<rparr> = max_attempts (init None None)"
proof -
  have h1: "1 \<le> max_attempts (init None None)" by (simp add: init_def)
  have h2: "get_attempt_count initial_state = 0"
    by (simp add: initial_state_def get_attempt_count_def)
  have h3: "nat (max_attempts (init None None)) \<le> length [''show me something'', ''heritage items'', ''cultural heritage'']"
    by (simp add: init_def)
  have h4: "search_turn (init None None) (recording weak_results)
        [''show me something'', ''heritage items'', ''cultural heritage'']
        ''show me something'' initial_state ([], ())
      = (Answer \<lparr>response_type = ''message'', archives = [], total_n = 0,
                 query = ''show me something'',
                 message = Some (''I couldn'' @ [CHR 0x27] @ ''t find relevant heritage materials matching your query. '' @
                                 ''Try describing what you'' @ [CHR 0x27] @ ''re looking for in different words, '' @
                                 ''or browse our collection for inspiration.'')\<rparr>,
         \<lparr>search_attempt_count = Some 3, original_user_query = Some ''show me something'',
          previous_queries_tried =
            Some [Some ''show me something'', Some ''heritage items'', Some ''cultural heritage''],
          best_results = Some []\<rparr>,
         ([(Some ''show me something'', Inr (Tuple ''results'' [])),
           (Some ''heritage items'',
            Inr (Tuple ''results'' [\<lparr>archive_id = ''a1'', similarity = Some 0.25\<rparr>])),
           (Some ''cultural heritage'',
            Inr (Tuple ''results'' [\<lparr>archive_id = ''a2'', similarity = Some 0.3\<rparr>]))], ()))"
    by (simp add: turn_defs eval_defs)
  have h5: "list_all (needs_refinement (init None None) \<circ> snd)
          [(Some ''show me something'', Inr (Tuple ''results'' [])),
           (Some ''heritage items'',
            Inr (Tuple ''results'' [\<lparr>archive_id = ''a1'', similarity = Some 0.25\<rparr>])),
           (Some ''cultural heritage'',
            Inr (Tuple ''results'' [\<lparr>archive_id = ''a2'', similarity = Some 0.3\<rparr>]))]"
    by (simp add: needs_refinement_def eval_defs)
  note th = exhausted_session_gets_exhaustion_message [OF h1 h2 h3 h4 h5]
  from h1 h2 h3 h4 h5 th [THEN conjunct2, THEN conjunct2, THEN conjunct2]
  show ?thesis
    by (intro conjI) assumption+
qed

text \<open>
  What the middleware itself hands to the agent at the end of that session (scenario D: no
  result, then 0.25, then 0.3): the tool result of the third attempt, as the search tool
  returned it.
\<close>

lemma scenario_D_result_handed_to_agent:
  "run_session (init None None) weak_results
       [''show me something'', ''heritage items'', ''cultural heritage'']
       initial_state ()
     = (Finished (Tuple ''results'' [\<lparr>archive_id = ''a2'', similarity = Some 0.3\<rparr>]),
        \<lparr>search_attempt_count = Some 3, original_user_query = Some ''show me something'',
         previous_queries_tried =
           Some [Some ''show me something'', Some ''heritage items'', Some ''cultural heritage''],
         best_results = Some []\<rparr>, ())"
  by (simp add: eval_defs)

subsection \<open>The queries tried\<close>



subsection \<open>The best results\<close>

lemma wrap_tool_call_best_results:
  "best_results (fst (snd (wrap_tool_call self request handler w))) = best_results (state request)"
proof (cases "call_name (tool_call request) = Some ''search_archives_db''")
  case True
  obtain r w1 where h: "handler (request\<lparr>state := state_before_search request\<rparr>) w = (r, w1)"
    by (cases "handler (request\<lparr>state := state_before_search request\<rparr>) w") auto
  show ?thesis
  proof (cases r)
    case (Inl e)
    with h True show ?thesis by (simp add: wrap_search_raises)
  next
    case (Inr result)
    with h True show ?thesis by (simp add: wrap_search_returns)
  qed
next
  case False
  then show ?thesis
    by (simp add: wrap_tool_call_def split: prod.splits sum.splits)
qed

lemma run_session_best_results:
  "best_results (fst (snd (run_session self handler qs st w))) = best_results st"
proof (induction qs arbitrary: st w)
  case Nil
  show ?case by simp
next
  case (Cons q qs)
  show ?case
    by (simp add: run_session_step Cons.IH split: prod.splits sum.splits)
qed

text \<open>
  C8 (the code at the failing input). The second attempt returns an archive of similarity
  0.25, more than anything seen before, and \<open>best_results\<close> is still the empty list:
  \<open>wrap_tool_call\<close> never assigns that key (\<open>wrap_tool_call_best_results\<close>).
\<close>

theorem best_results_not_updated:
  "run_session (init None None) weak_results [''wayang'', ''wayang kulit''] initial_state ()
     = (Pending,
        \<lparr>search_attempt_count = Some 2, original_user_query = Some ''wayang'',
         previous_queries_tried = Some [Some ''wayang'', Some ''wayang kulit''],
         best_results = Some []\<rparr>, ())
   \<and> weak_results
        (request_of ''wayang kulit'' (initial_state\<lparr>search_attempt_count := Some 1\<rparr>)) ()
     = (Inr (Tuple ''results'' [\<lparr>archive_id = ''a1'', similarity = Some 0.25\<rparr>]), ())"
  by (simp add: eval_defs)

subsection \<open>The evaluator and the other tools\<close>

text \<open>
  C2. \<open>_evaluate_results\<close> answers "good enough" exactly when the list is not empty and
  some item has a similarity at or above the threshold, the similarity of an item being its
  field \<open>similarity\<close>, or 0 for an item without that field
  (\<open>archive.get("similarity", 0)\<close>); the threshold of a middleware built without that
  argument is 0.4.
\<close>

theorem evaluate_results_policy:
  "evaluate_results self items =
     (items \<noteq> []
      \<and> (\<exists>a \<in> set items.
            (case similarity a of None \<Rightarrow> 0 | Some s \<Rightarrow> s) \<ge> min_similarity_threshold self))
   \<and> min_similarity_threshold (init m None) = 0.4"
  by (simp add: evaluate_results_def get_similarity_def list_ex_iff init_def)

text \<open>
  C9. For a tool call of any other name, \<open>wrap_tool_call\<close> is the handler: it returns the
  handler's result (or lets its exception pass), the handler gets the request as it came,
  and the state is the state of the request, every field of it.
\<close>

theorem other_tools_pass_through:
  assumes "call_name (tool_call request) \<noteq> Some ''search_archives_db''"
  shows "wrap_tool_call self request handler w =
           (case handler request w of
              (Inl e, w') \<Rightarrow> (Inl e, state request, w')
            | (Inr result, w') \<Rightarrow> (Inr (Returned result), state request, w'))"
  using assms by (simp add: wrap_tool_call_def)

theorem other_tools_pass_through_witness:
  "call_name (tool_call \<lparr>tool_call = \<lparr>call_name = Some ''get_weather'', call_query = None,
                                       call_id = ''c1''\<rparr>,
                          state = initial_state\<lparr>search_attempt_count := Some 2\<rparr>\<rparr>)
     \<noteq> Some ''search_archives_db''
   \<and> wrap_tool_call (init None None)
        \<lparr>tool_call = \<lparr>call_name = Some ''get_weather'', call_query = None, call_id = ''c1''\<rparr>,
         state = initial_state\<lparr>search_attempt_count := Some 2\<rparr>\<rparr>
        (counting weak_results) (0, ())
      = (Inr (Returned (Tuple ''results'' [\<lparr>archive_id = ''a2'', similarity = Some 0.3\<rparr>])),
         initial_state\<lparr>search_attempt_count := Some 2\<rparr>, (1, ()))"
  using other_tools_pass_through
    [of "\<lparr>tool_call = \<lparr>call_name = Some ''get_weather'', call_query = None, call_id = ''c1''\<rparr>,
          state = initial_state\<lparr>search_attempt_count := Some 2\<rparr>\<rparr>"
        "init None None" "counting weak_results" "(0, ())"]
  by (simp add: eval_defs)

subsection \<open>The chat panel\<close>

lemma handleSend_throws:
  assumes "trim (input panel) \<noteq> [] \<or> selectedFiles panel \<noteq> []"
    and "aiSearchArchives (trim (input panel)) w = (Inl error, w')"
  shows "handleSend aiSearchArchives toArchiveItem createObjectURL now panel w =
           (panel\<lparr>input := [], selectedFiles := [],
                  messages := messages panel @
                    [user_message createObjectURL now panel w,
                     assistant_message (now w')
                       (''Sorry, search failed: '' @ error_text error @ ''. Please try again.'') None],
                  isTyping := False,
                  toasts := toasts panel @ [ToastError ''Search failed. Please try again.'']\<rparr>, w')"
  using assms
  by (auto simp: handleSend_def Let_def user_message_def assistant_message_def)

lemma handleSend_message:
  assumes "trim (input panel) \<noteq> [] \<or> selectedFiles panel \<noteq> []"
    and "aiSearchArchives (trim (input panel)) w = (Inr result, w')"
    and "response_type result = ''message''"
  shows "handleSend aiSearchArchives toArchiveItem createObjectURL now panel w =
           (panel\<lparr>input := [], selectedFiles := [],
                  messages := messages panel @
                    [user_message createObjectURL now panel w,
                     assistant_message (now w')
                       (or_else (message result) ''I can help you search our heritage archive.'') None],
                  isTyping := False\<rparr>, w')"
  using assms
  by (auto simp: handleSend_def Let_def user_message_def assistant_message_def)

lemmas panel_defs =
  panel_with_def trim_def is_white_space_def user_message_def assistant_message_def
  object_url_def error_text_def or_else_def

text \<open>
  C10. When the input trims to the empty string and no file is selected, \<open>handleSend\<close>
  returns at once: the panel (messages, input, selected files, typing indicator, toasts) is
  as it was, and so is the outside world, whatever the backend call would do to it: the
  call is not made.
\<close>

theorem handleSend_blank_input:
  assumes "trim (input panel) = []" and "selectedFiles panel = []"
  shows "handleSend aiSearchArchives toArchiveItem createObjectURL now panel w = (panel, w)"
  using assms by (simp add: handleSend_def)

theorem handleSend_blank_input_witness:
  "trim (input (panel_with [CHR 0x20, CHR 0x09, CHR 0x20])) = []
   \<and> selectedFiles (panel_with [CHR 0x20, CHR 0x09, CHR 0x20]) = []
   \<and> handleSend (counting_calls backend_away) id object_url (\<lambda>w. 1000)
        (panel_with [CHR 0x20, CHR 0x09, CHR 0x20]) (0, ())
      = (panel_with [CHR 0x20, CHR 0x09, CHR 0x20], (0, ()))"
proof -
  have h1: "trim (input (panel_with [CHR 0x20, CHR 0x09, CHR 0x20])) = []"
    by (simp add: panel_defs)
  have h2: "selectedFiles (panel_with [CHR 0x20, CHR 0x09, CHR 0x20]) = []"
    by (simp add: panel_defs)
  from handleSend_blank_input [OF h1 h2] h1 h2 show ?thesis by simp
qed

lemma raise_ends_session:
  assumes "handler ((request_of q st)\<lparr>state := state_before_search (request_of q st)\<rparr>) w
             = (Inl e, w')"
  shows "wrap_tool_call self (request_of q st) (counting handler) (n, w)
           = (Inl e, state_before_search (request_of q st), (Suc n, w'))"
    and "run_session self (counting handler) (q # qs) st (n, w)
           = (Failed e, state_before_search (request_of q st), (Suc n, w'))"
proof -
  have c: "counting handler ((request_of q st)\<lparr>state := state_before_search (request_of q st)\<rparr>)
             (n, w) = (Inl e, (Suc n, w'))"
    using assms by (simp add: counting_apply)
  show "wrap_tool_call self (request_of q st) (counting handler) (n, w)
          = (Inl e, state_before_search (request_of q st), (Suc n, w'))"
    using c by (intro wrap_search_raises) simp_all
  show "run_session self (counting handler) (q # qs) st (n, w)
          = (Failed e, state_before_search (request_of q st), (Suc n, w'))"
    using c by (simp add: run_session_step)
qed

lemma failure_text_differs:
  "''Sorry, search failed: '' @ m @ ''. Please try again.''
     \<noteq> ''I couldn'' @ [CHR 0x27] @ ''t find relevant heritage materials matching your query. '' @
        ''Try describing what you'' @ [CHR 0x27] @ ''re looking for in different words, '' @
        ''or browse our collection for inspiration.''"
  by simp

text \<open>
  C7. A search turn sent by the chat panel, with the handler's invocations recorded, in
  which some search raised the exception \<open>e\<close>: that search is the last one of the turn (the
  searches before it returned results that needed refinement, and none follows it), the turn
  ends as a failure of the service and not as a response, and the panel shows the message
  of its \<open>catch\<close> branch with an error toast, a text that is not the message of the
  exhausted search.
\<close>

theorem transport_failure_not_retried:
  assumes "backend self (recording handler) generate utterance ([], w) = (out, (seen, w'))"
    and "Inl e \<in> snd ` set seen"
    and "trim (input panel) = utterance" and "utterance \<noteq> []"
  shows "out = ServiceFailure e
         \<and> seen \<noteq> [] \<and> snd (last seen) = Inl e
         \<and> list_all (needs_refinement self \<circ> snd) (butlast seen)
         \<and> handleSend (api_client describe (backend self (recording handler) generate))
              toArchiveItem createObjectURL now panel ([], w)
            = (panel\<lparr>input := [], selectedFiles := [],
                     messages := messages panel @
                       [user_message createObjectURL now panel ([], w),
                        assistant_message (now (seen, w'))
                          (''Sorry, search failed: '' @ describe e @ ''. Please try again.'')
                          None],
                     isTyping := False,
                     toasts := toasts panel @ [ToastError ''Search failed. Please try again.'']\<rparr>,
               (seen, w'))
         \<and> ''Sorry, search failed: '' @ describe e @ ''. Please try again.''
             \<noteq> ''I couldn'' @ [CHR 0x27] @ ''t find relevant heritage materials matching your query. '' @
                ''Try describing what you'' @ [CHR 0x27] @ ''re looking for in different words, '' @
                ''or browse our collection for inspiration.''"
proof -
  obtain st' where turn:
    "search_turn self (recording handler) (generate utterance) utterance initial_state ([], w)
       = (out, st', (seen, w'))"
    using assms(1)
    by (cases "search_turn self (recording handler) (generate utterance) utterance
                 initial_state ([], w)")
       (simp add: backend_def)
  from turn obtain o2 where run:
    "run_session self (recording handler) (generate utterance) initial_state ([], w)
       = (o2, st', (seen, w'))"
    and out: "out = (case o2 of
                 Finished result \<Rightarrow>
                   Answer (format_response
                     (if evaluate_results self (archives_of result)
                      then Results (archives_of result)
                      else Message exhausted_message) utterance)
               | Failed e \<Rightarrow> ServiceFailure e
               | Pending \<Rightarrow> Answer (format_response (Message exhausted_message) utterance))"
    by (rule search_turn_session)
  from run_session_trace [OF run] have
    b: "list_all (needs_refinement self \<circ> snd) (butlast seen)"
    and o: "case o2 of
          Failed e \<Rightarrow> seen \<noteq> [] \<and> snd (last seen) = Inl e
        | Finished result \<Rightarrow> seen \<noteq> [] \<and> snd (last seen) = Inr result
            \<and> (evaluate_results self (archives_of result)
                \<or> max_attempts self \<le> get_attempt_count st')
        | Pending \<Rightarrow> length (seen) = length (generate utterance)
            \<and> list_all (needs_refinement self \<circ> snd) seen
            \<and> (seen = [] \<or> get_attempt_count st' < max_attempts self)"
    by auto
  from assms(2) have ne: "seen \<noteq> []" by auto
  then have split: "seen = butlast seen @ [last seen]" by simp
  have "Inl e \<notin> snd ` set (butlast seen)"
    using b by (auto simp: list_all_iff needs_refinement_def)
  with assms(2) split have l: "snd (last seen) = Inl e"
    by (metis (no_types, lifting) Un_iff image_Un image_insert insertE list.set(1) list.set(2)
        set_append image_empty empty_iff)
  have f: "o2 = Failed e"
  proof (cases o2)
    case (Finished result)
    with o l show ?thesis by simp
  next
    case (Failed e')
    with o l show ?thesis by simp
  next
    case Pending
    with o have "\<forall>x \<in> set seen. needs_refinement self (snd x)"
      by (simp add: list_all_iff)
    with last_in_set [OF ne] have "needs_refinement self (snd (last seen))" by blast
    with l show ?thesis by (simp add: needs_refinement_def)
  qed
  with out have sf: "out = ServiceFailure e" by simp
  have g: "trim (input panel) \<noteq> [] \<or> selectedFiles panel \<noteq> []"
    using assms(3,4) by simp
  have api: "api_client describe (backend self (recording handler) generate) (trim (input panel))
               ([], w) = (Inl (Error (describe e)), (seen, w'))"
    using assms(1,3) sf by (simp add: api_client_def)
  have "handleSend (api_client describe (backend self (recording handler) generate))
              toArchiveItem createObjectURL now panel ([], w)
            = (panel\<lparr>input := [], selectedFiles := [],
                     messages := messages panel @
                       [user_message createObjectURL now panel ([], w),
                        assistant_message (now (seen, w'))
                          (''Sorry, search failed: '' @ describe e @ ''. Please try again.'')
                          None],
                     isTyping := False,
                     toasts := toasts panel @ [ToastError ''Search failed. Please try again.'']\<rparr>,
               (seen, w'))"
    using handleSend_throws
      [where aiSearchArchives = "api_client describe (backend self (recording handler) generate)"
         and panel = panel and w = "([], w)" and error = "Error (describe e)" and w' = "(seen, w')",
       OF g api]
    by (simp add: error_text_def)
  with sf ne l b show ?thesis
    using failure_text_differs [of "describe e"] by simp
qed

theorem transport_failure_not_retried_witness:
  "backend (init None None) (recording times_out_on_retry) broaden ''batik'' ([], ())
     = (ServiceFailure (TimeoutError ''search timed out''),
        ([(Some ''batik'', Inr (Tuple ''results'' [])),
          (Some ''batik heritage'', Inl (TimeoutError ''search timed out''))], ()))
   \<and> Inl (TimeoutError ''search timed out'')
       \<in> snd ` set [(Some ''batik'', Inr (Tuple ''results'' [])),
                    (Some ''batik heritage'', Inl (TimeoutError ''search timed out''))]
   \<and> trim (input (panel_with ''batik'')) = ''batik'' \<and> ''batik'' \<noteq> []
   \<and> handleSend
        (api_client (\<lambda>e. ''Service Unavailable'')
           (backend (init None None) (recording times_out_on_retry) broaden))
        (\<lambda>a. 0) object_url (\<lambda>w. 1000) (panel_with ''batik'') ([], ())
      = (\<lparr>messages =
            [\<lparr>msg_id = 1000, role = user, content = ''batik'', timestamp = 1000,
              files = Some [], archiveResults = None\<rparr>,
             \<lparr>msg_id = 1001, role = assistant,
              content = ''Sorry, search failed: Service Unavailable. Please try again.'',
              timestamp = 1000, files = None, archiveResults = None\<rparr>],
          input = [], selectedFiles = [], isTyping = False,
          toasts = [ToastError ''Search failed. Please try again.'']\<rparr>,
         ([(Some ''batik'', Inr (Tuple ''results'' [])),
           (Some ''batik heritage'', Inl (TimeoutError ''search timed out''))], ()))"
proof -
  have h1: "backend (init None None) (recording times_out_on_retry) broaden ''batik'' ([], ())
     = (ServiceFailure (TimeoutError ''search timed out''),
        ([(Some ''batik'', Inr (Tuple ''results'' [])),
          (Some ''batik heritage'', Inl (TimeoutError ''search timed out''))], ()))"
    by (simp add: turn_defs eval_defs)
  have h2: "Inl (TimeoutError ''search timed out'')
       \<in> snd ` set [(Some ''batik'', Inr (Tuple ''results'' [])),
                    (Some ''batik heritage'', Inl (TimeoutError ''search timed out''))]"
    by simp
  have h3: "trim (input (panel_with ''batik'')) = ''batik''"
    by (simp add: panel_defs)
  have h4: "''batik'' \<noteq> []" by simp
  from transport_failure_not_retried
    [where self = "init None None" and handler = times_out_on_retry and generate = broaden
       and utterance = "''batik''" and w = "()" and panel = "panel_with ''batik''"
       and describe = "\<lambda>e. ''Service Unavailable''" and toArchiveItem = "\<lambda>a. 0"
       and createObjectURL = object_url and now = "\<lambda>w. 1000",
     OF h1 h2 h3 h4]
    h1 h2 h3 h4
  show ?thesis
    by (simp add: panel_defs)
qed

subsection \<open>The response contract\<close>

text \<open>
  C4. Every response the formatter builds is of one of the two patterns:
  \<open>response_type\<close> is "results" exactly when \<open>archives\<close> is not empty, which is exactly
  when \<open>message\<close> is null; an empty result set gives a message response, and \<open>total\<close> is
  the number of archives.
\<close>

theorem response_exclusivity:
  "(response_type (format_response outcome q) = ''results'')
      = (archives (format_response outcome q) \<noteq> [])
   \<and> (archives (format_response outcome q) \<noteq> [])
      = (message (format_response outcome q) = None)
   \<and> (response_type (format_response outcome q) = ''results''
        \<or> response_type (format_response outcome q) = ''message'')
   \<and> total_n (format_response outcome q) = int (length (archives (format_response outcome q)))"
  by (cases outcome) (simp_all add: format_response_def message_response_def)

text \<open>
  C5. The response by intent, with the texts spelled out: for UNCLEAR, UNRELATED and
  GREETING the search path is not entered (the world, where searches happen, is as before)
  and the response is the message response carrying the fixed text for that intent,
  character for character; only HERITAGE_SEARCH goes to the search path. A chat panel that
  sends the utterance and receives such a response shows exactly its text.
\<close>

theorem non_search_intent_gets_canned_message:
  "respond classify search_path utterance w =
     (case classify utterance of
        HERITAGE_SEARCH \<Rightarrow> search_path utterance w
      | UNCLEAR \<Rightarrow>
          (\<lparr>response_type = ''message'', archives = [], total_n = 0, query = utterance,
            message = Some
              (''Could you please provide more details about what heritage materials you'' @ [CHR 0x27] @
               ''re looking for? For example, you could specify a type (batik, crafts, architecture), '' @
               ''location, or time period.'')\<rparr>, w)
      | UNRELATED \<Rightarrow>
          (\<lparr>response_type = ''message'', archives = [], total_n = 0, query = utterance,
            message = Some
              (''I can only help you search for heritage archive materials such as traditional crafts, '' @
               ''cultural artifacts, historical documents, and cultural media. '' @
               ''How can I assist you with heritage materials today?'')\<rparr>, w)
      | GREETING \<Rightarrow>
          (\<lparr>response_type = ''message'', archives = [], total_n = 0, query = utterance,
            message = Some
              (''Hello! I'' @ [CHR 0x27] @ ''m here to help you search our heritage archive. '' @
               ''What cultural materials or historical items would you like to explore?'')\<rparr>, w))
   \<and> (\<forall>aiSearchArchives panel u u' response.
         classify utterance \<noteq> HERITAGE_SEARCH
         \<and> trim (input panel) = utterance \<and> utterance \<noteq> []
         \<and> respond classify search_path utterance w = (response, w)
         \<and> aiSearchArchives utterance u = (Inr response, u')
         \<longrightarrow> (\<exists>reply. message response = Some reply
                \<and> handleSend aiSearchArchives (toArchiveItem :: 'a \<Rightarrow> 'item) createObjectURL
                     (now :: 'u \<Rightarrow> int) panel u
                   = (panel\<lparr>input := [], selectedFiles := [],
                            messages := messages panel @
                              [user_message createObjectURL now panel u,
                               assistant_message (now u') reply None],
                            isTyping := False\<rparr>, u')))"
proof (intro conjI allI impI)
  show "respond classify search_path utterance w =
     (case classify utterance of
        HERITAGE_SEARCH \<Rightarrow> search_path utterance w
      | UNCLEAR \<Rightarrow>
          (\<lparr>response_type = ''message'', archives = [], total_n = 0, query = utterance,
            message = Some
              (''Could you please provide more details about what heritage materials you'' @ [CHR 0x27] @
               ''re looking for? For example, you could specify a type (batik, crafts, architecture), '' @
               ''location, or time period.'')\<rparr>, w)
      | UNRELATED \<Rightarrow>
          (\<lparr>response_type = ''message'', archives = [], total_n = 0, query = utterance,
            message = Some
              (''I can only help you search for heritage archive materials such as traditional crafts, '' @
               ''cultural artifacts, historical documents, and cultural media. '' @
               ''How can I assist you with heritage materials today?'')\<rparr>, w)
      | GREETING \<Rightarrow>
          (\<lparr>response_type = ''message'', archives = [], total_n = 0, query = utterance,
            message = Some
              (''Hello! I'' @ [CHR 0x27] @ ''m here to help you search our heritage archive. '' @
               ''What cultural materials or historical items would you like to explore?'')\<rparr>, w))"
    by (cases "classify utterance")
       (simp_all add: respond_def format_response_def message_response_def)
next
  fix aiSearchArchives :: "string \<Rightarrow> 'u \<Rightarrow> (thrown + 'a SearchResponse) \<times> 'u"
    and panel :: "'item ChatPanel" and u u' :: 'u and response :: "'a SearchResponse"
  assume a: "classify utterance \<noteq> HERITAGE_SEARCH
         \<and> trim (input panel) = utterance \<and> utterance \<noteq> []
         \<and> respond classify search_path utterance w = (response, w)
         \<and> aiSearchArchives utterance u = (Inr response, u')"
  from a obtain reply where t: "agent_response (classify utterance) = Some reply" "reply \<noteq> []"
    by (cases "classify utterance") auto
  from a t have r: "response_type response = ''message''" "message response = Some reply"
    by (auto simp: respond_def format_response_def message_response_def)
  from a have g: "trim (input panel) \<noteq> [] \<or> selectedFiles panel \<noteq> []" by simp
  from a have b: "aiSearchArchives (trim (input panel)) u = (Inr response, u')" by simp
  have "handleSend aiSearchArchives toArchiveItem createObjectURL now panel u
          = (panel\<lparr>input := [], selectedFiles := [],
                   messages := messages panel @
                     [user_message createObjectURL now panel u,
                      assistant_message (now u') reply None],
                   isTyping := False\<rparr>, u')"
    using handleSend_message
      [where aiSearchArchives = aiSearchArchives and panel = panel and w = u and w' = u'
         and result = response, OF g b r(1)]
      r(2) t(2)
    by (simp add: or_else_def)
  with r(2) show "\<exists>reply. message response = Some reply
                \<and> handleSend aiSearchArchives toArchiveItem createObjectURL now panel u
                   = (panel\<lparr>input := [], selectedFiles := [],
                            messages := messages panel @
                              [user_message createObjectURL now panel u,
                               assistant_message (now u') reply None],
                            isTyping := False\<rparr>, u')"
    by blast
qed

theorem non_search_intent_gets_canned_message_witness:
  "respond plan_examples three_results ''stuff'' 0
     = (\<lparr>response_type = ''message'', archives = [], total_n = 0, query = ''stuff'',
         message = Some
           (''Could you please provide more details about what heritage materials you'' @ [CHR 0x27] @
            ''re looking for? For example, you could specify a type (batik, crafts, architecture), '' @
            ''location, or time period.'')\<rparr>, 0)
   \<and> respond plan_examples three_results ''tell me a joke'' 0
     = (\<lparr>response_type = ''message'', archives = [], total_n = 0, query = ''tell me a joke'',
         message = Some
           (''I can only help you search for heritage archive materials such as traditional crafts, '' @
            ''cultural artifacts, historical documents, and cultural media. '' @
            ''How can I assist you with heritage materials today?'')\<rparr>, 0)
   \<and> respond plan_examples three_results ''hello'' 0
     = (\<lparr>response_type = ''message'', archives = [], total_n = 0, query = ''hello'',
         message = Some
           (''Hello! I'' @ [CHR 0x27] @ ''m here to help you search our heritage archive. '' @
            ''What cultural materials or historical items would you like to explore?'')\<rparr>, 0)
   \<and> plan_examples ''hello'' \<noteq> HERITAGE_SEARCH
   \<and> trim (input (panel_with ''hello'')) = ''hello'' \<and> ''hello'' \<noteq> []
   \<and> backend_greeting ''hello'' 0
       = (Inr (fst (respond plan_examples three_results ''hello'' 0)), 0)
   \<and> handleSend backend_greeting id object_url (\<lambda>w. 1000) (panel_with ''hello'') 0
       = (\<lparr>messages =
             [\<lparr>msg_id = 1000, role = user, content = ''hello'', timestamp = 1000,
               files = Some [], archiveResults = None\<rparr>,
              \<lparr>msg_id = 1001, role = assistant,
               content = ''Hello! I'' @ [CHR 0x27] @ ''m here to help you search our heritage archive. '' @
                         ''What cultural materials or historical items would you like to explore?'',
               timestamp = 1000, files = None, archiveResults = None\<rparr>],
           input = [], selectedFiles = [], isTyping = False, toasts = []\<rparr>, 0)"
proof -
  note unclear = non_search_intent_gets_canned_message
    [where classify = plan_examples and utterance = "''stuff''"
       and search_path = three_results and w = 0, THEN conjunct1]
  note unrelated = non_search_intent_gets_canned_message
    [where classify = plan_examples and utterance = "''tell me a joke''"
       and search_path = three_results and w = 0, THEN conjunct1]
  note greeting = non_search_intent_gets_canned_message
    [where classify = plan_examples and utterance = "''hello''"
       and search_path = three_results and w = 0
       and toArchiveItem = "id :: nat \<Rightarrow> nat" and createObjectURL = object_url
       and now = "\<lambda>w :: nat. 1000"]
  have r1: "respond plan_examples three_results ''stuff'' 0
     = (\<lparr>response_type = ''message'', archives = [], total_n = 0, query = ''stuff'',
         message = Some
           (''Could you please provide more details about what heritage materials you'' @ [CHR 0x27] @
            ''re looking for? For example, you could specify a type (batik, crafts, architecture), '' @
            ''location, or time period.'')\<rparr>, 0)"
    using unclear by (simp add: plan_examples_def)
  have r2: "respond plan_examples three_results ''tell me a joke'' 0
     = (\<lparr>response_type = ''message'', archives = [], total_n = 0, query = ''tell me a joke'',
         message = Some
           (''I can only help you search for heritage archive materials such as traditional crafts, '' @
            ''cultural artifacts, historical documents, and cultural media. '' @
            ''How can I assist you with heritage materials today?'')\<rparr>, 0)"
    using unrelated by (simp add: plan_examples_def)
  have r3: "respond plan_examples three_results ''hello'' 0
     = (\<lparr>response_type = ''message'', archives = [], total_n = 0, query = ''hello'',
         message = Some
           (''Hello! I'' @ [CHR 0x27] @ ''m here to help you search our heritage archive. '' @
            ''What cultural materials or historical items would you like to explore?'')\<rparr>, 0)"
    using greeting [THEN conjunct1] by (simp add: plan_examples_def)
  have h1: "plan_examples ''hello'' \<noteq> HERITAGE_SEARCH"
    by (simp add: plan_examples_def)
  have h2: "trim (input (panel_with ''hello'')) = ''hello''"
    by (simp add: panel_defs)
  have h3: "''hello'' \<noteq> []" by simp
  have h4: "backend_greeting ''hello'' 0
              = (Inr (fst (respond plan_examples three_results ''hello'' 0)), 0)"
    by (simp add: backend_greeting_def r3)
  have h5: "respond plan_examples three_results ''hello'' 0
              = (fst (respond plan_examples three_results ''hello'' 0), 0)"
    by (simp add: r3)
  note shown = greeting [THEN conjunct2, rule_format,
      of "panel_with ''hello''" "fst (respond plan_examples three_results ''hello'' 0)"
         backend_greeting 0 0,
      OF conjI [OF h1 conjI [OF h2 conjI [OF h3 conjI [OF h5 h4]]]]]
  from shown r3
  have p: "handleSend backend_greeting id object_url (\<lambda>w. 1000) (panel_with ''hello'') 0
              = ((panel_with ''hello'')\<lparr>input := [], selectedFiles := [],
                     messages := messages (panel_with ''hello'') @
                       [user_message object_url (\<lambda>w. 1000) (panel_with ''hello'') (0 :: nat),
                        assistant_message 1000
                          (''Hello! I'' @ [CHR 0x27] @ ''m here to help you search our heritage archive. '' @
                           ''What cultural materials or historical items would you like to explore?'')
                          None],
                     isTyping := False\<rparr>, 0)"
    by simp
  from r1 r2 r3 h1 h2 h3 h4 p show ?thesis
    by (simp add: panel_defs)
qed

end
